theory Spec2Isabelle
  imports Main "HOL-Library.Word"
begin

section \<open>The DRM gralloc module (gralloc.cpp)\<close>

text \<open>
  A shallow embedding of the allocator module of \<^verbatim>\<open>gralloc.cpp\<close>.  Every function
  of that file is a HOL function of the same name over an explicit state: the module's
  device pointer \<^verbatim>\<open>dmod->drm\<close>, the file-scope map \<^verbatim>\<open>all_records\<close>, and the heap of
  the objects the file reaches through pointers (devices, buffer objects, handles).

  A C function that returns an \<^verbatim>\<open>int\<close> status returns that \<^verbatim>\<open>int\<close> here: \<open>0\<close> is success and
  \<open>- EINVAL\<close>, \<open>- ENOMEM\<close> are the two codes the file produces itself.  The error kinds
  of the specification are names for these codes: DeviceInit, BadFormat, BadHandle,
  BadName, BadOp and Unsupported are all \<open>- EINVAL\<close>, OutOfMemory is \<open>- ENOMEM\<close>.
  A function with out-parameters returns \<open>Inl status\<close> when it returns a non-zero status
  (the out-parameters are then not written) and \<open>Inr outputs\<close> when it returns \<open>0\<close>.
\<close>

subsection \<open>Constants of the platform headers\<close>

definition EINVAL :: int where
  "EINVAL = 22"

definition ENOMEM :: int where
  "ENOMEM = 12"

text \<open>Pixel-format tags of the Android graphics header.\<close>

definition HAL_PIXEL_FORMAT_RGBA_8888 :: int where
  "HAL_PIXEL_FORMAT_RGBA_8888 = 1"

definition HAL_PIXEL_FORMAT_IMPLEMENTATION_DEFINED :: int where
  "HAL_PIXEL_FORMAT_IMPLEMENTATION_DEFINED = 34"

definition HAL_PIXEL_FORMAT_YCbCr_420_888 :: int where
  "HAL_PIXEL_FORMAT_YCbCr_420_888 = 35"

definition HAL_PIXEL_FORMAT_YV12 :: int where
  "HAL_PIXEL_FORMAT_YV12 = 842094169"

subsection \<open>Data model\<close>

text \<open>
  Heap objects are named by their address, a \<open>nat\<close>; a pointer that may be \<^verbatim>\<open>NULL\<close> is an
  \<open>addr option\<close>.  An address the CPU mapping returns (\<^verbatim>\<open>void *\<close>) is a 64-bit word with
  \<^verbatim>\<open>NULL\<close> as \<open>0\<close>, since the planar lock does arithmetic on it.
\<close>

type_synonym addr = nat
type_synonym ptr = "64 word"
type_synonym uint32_t = "32 word"

text \<open>The fields of \<^verbatim>\<open>gralloc_drm_handle_t\<close> that the file reads, and \<open>data\<close>, the local
  buffer object the handle resolves to.\<close>

record gralloc_drm_handle_t =
  width :: int
  height :: int
  format :: int
  usage :: int
  stride :: int
  data :: "addr option"

text \<open>A buffer object: its handle (\<^verbatim>\<open>bo->handle\<close>), its reference count and its lock
  state (\<open>None\<close> is unlocked, \<open>Some (usage, x, y, w, h)\<close> locked).\<close>

record gralloc_drm_bo_t =
  handle :: addr
  refcount :: nat
  locked :: "(int \<times> int \<times> int \<times> int \<times> int) option"

text \<open>
  The state: \<open>drm\<close> is the module's device pointer \<^verbatim>\<open>dmod->drm\<close>; \<open>all_records\<close> is the
  \<^verbatim>\<open>std::map\<close> from buffer object to the caller's handle slot, kept as the list of its
  entries in iteration order; \<open>devices\<close> (the driver-bound device objects),
  \<open>alloc_devs\<close> (the allocator devices handed out by \<^verbatim>\<open>open\<close>), \<open>bos\<close> and \<open>handles\<close>
  are the live objects of the heap.
\<close>

record drm_module_t =
  drm :: "addr option"
  all_records :: "(addr \<times> addr) list"
  devices :: "addr list"
  alloc_devs :: "addr list"
  bos :: "addr \<rightharpoonup> gralloc_drm_bo_t"
  handles :: "addr \<rightharpoonup> gralloc_drm_handle_t"

text \<open>
  The back-end below the module (the kernel driver, the format catalog, the C library's
  allocator) is a parameter: a record of the answers it gives.
\<close>

record driver =
  drv_create :: "addr option"
  drv_get_fd :: "addr option \<Rightarrow> int"
  drv_get_bpp :: "int \<Rightarrow> int"
  drv_alloc :: "int \<Rightarrow> int \<Rightarrow> int \<Rightarrow> int \<Rightarrow> (addr \<times> addr \<times> int) option"
  drv_import :: "addr \<Rightarrow> addr option"
  drv_map :: "addr \<Rightarrow> int \<Rightarrow> int \<Rightarrow> int \<Rightarrow> int \<Rightarrow> int \<Rightarrow> int \<times> ptr"
  drv_resolve_format :: "addr \<Rightarrow> (nat \<Rightarrow> uint32_t) \<times> (nat \<Rightarrow> uint32_t) \<times> (nat \<Rightarrow> uint32_t)"
  drv_resolve_buffer :: "(int \<Rightarrow> addr \<Rightarrow> int) option"
  drv_new :: "addr option"

subsection \<open>The registry: \<^verbatim>\<open>std::map\<close> operations used by the file\<close>

definition records_find :: "addr \<Rightarrow> (addr \<times> addr) list \<Rightarrow> addr option" where
  "records_find bo m = map_of m bo"

text \<open>\<^verbatim>\<open>std::map::insert\<close> keeps the entry already stored under the key, if there is one.\<close>

definition records_insert :: "addr \<times> addr \<Rightarrow> (addr \<times> addr) list \<Rightarrow> (addr \<times> addr) list" where
  "records_insert p m = (if map_of m (fst p) = None then insort_key fst p m else m)"

fun records_erase :: "addr \<Rightarrow> (addr \<times> addr) list \<Rightarrow> (addr \<times> addr) list" where
  "records_erase bo [] = []"
| "records_erase bo (p # m) = (if fst p = bo then m else p # records_erase bo m)"

subsection \<open>The driver adapter (gralloc_drm.cpp)\<close>

text \<open>Modelled from the spec: \<^verbatim>\<open>gralloc_drm_create\<close>, the construction of the
  driver-bound device, which returns null when it fails.  The new device becomes live.\<close>

definition gralloc_drm_create :: "driver \<Rightarrow> drm_module_t \<Rightarrow> addr option \<times> drm_module_t" where
  "gralloc_drm_create drv st =
     (case drv_create drv of
        None \<Rightarrow> (None, st)
      | Some d \<Rightarrow> (Some d, st\<lparr>devices := d # devices st\<rparr>))"

text \<open>Modelled from the spec: \<^verbatim>\<open>gralloc_drm_destroy\<close>, which destroys the device
  singleton (Live to Dead).  The device stops being live.\<close>

definition gralloc_drm_destroy :: "addr option \<Rightarrow> drm_module_t \<Rightarrow> drm_module_t" where
  "gralloc_drm_destroy d st =
     (case d of
        None \<Rightarrow> st
      | Some a \<Rightarrow> st\<lparr>devices := removeAll a (devices st)\<rparr>)"

text \<open>Modelled from the spec: \<^verbatim>\<open>gralloc_drm_bo_from_handle\<close>, which resolves the
  buffer object from a handle; an unknown handle resolves to null.  A handle is known
  when it is live and attached to a live buffer object whose handle it is.\<close>

definition gralloc_drm_bo_from_handle :: "drm_module_t \<Rightarrow> addr \<Rightarrow> addr option" where
  "gralloc_drm_bo_from_handle st hnd =
     (case handles st hnd of
        None \<Rightarrow> None
      | Some h \<Rightarrow>
          (case data h of
             None \<Rightarrow> None
           | Some bo \<Rightarrow>
               (case bos st bo of
                  None \<Rightarrow> None
                | Some b \<Rightarrow> (if handle b = hnd then Some bo else None))))"

text \<open>Modelled from the spec: \<^verbatim>\<open>gralloc_drm_bo_decref\<close>, which decrements the
  reference count of a buffer object and performs the actual release on reaching zero;
  after the release the handle no longer resolves.\<close>

definition gralloc_drm_bo_decref :: "addr \<Rightarrow> drm_module_t \<Rightarrow> drm_module_t" where
  "gralloc_drm_bo_decref bo st =
     (case bos st bo of
        None \<Rightarrow> st
      | Some b \<Rightarrow>
          (if refcount b \<le> 1
           then st\<lparr>bos := (bos st)(bo := None),
                   handles := (\<lambda>a. if a = handle b
                                      then map_option (\<lambda>h. h\<lparr>data := None\<rparr>) (handles st a)
                                      else handles st a)\<rparr>
           else st\<lparr>bos := (bos st)(bo \<mapsto> b\<lparr>refcount := refcount b - 1\<rparr>)\<rparr>))"

text \<open>Modelled from the spec: \<^verbatim>\<open>gralloc_drm_bo_create\<close>, which asks the driver for
  a buffer object meeting \<open>(w, h, format, usage)\<close> and returns null when the driver
  refuses.  The new object has one reference and is unlocked; its handle records the
  geometry and the byte pitch the driver chose.\<close>

definition gralloc_drm_bo_create ::
  "driver \<Rightarrow> int \<Rightarrow> int \<Rightarrow> int \<Rightarrow> int \<Rightarrow> drm_module_t \<Rightarrow> addr option \<times> drm_module_t" where
  "gralloc_drm_bo_create drv w h fmt usg st =
     (case drv_alloc drv w h fmt usg of
        None \<Rightarrow> (None, st)
      | Some (bo, hnd, pitch) \<Rightarrow>
          (Some bo,
           st\<lparr>bos := (bos st)(bo \<mapsto> \<lparr>handle = hnd, refcount = 1, locked = None\<rparr>),
              handles := (handles st)(hnd \<mapsto>
                \<lparr>width = w, height = h, format = fmt, usage = usg, stride = pitch,
                 data = Some bo\<rparr>)\<rparr>))"

text \<open>Modelled from the spec: \<^verbatim>\<open>gralloc_drm_bo_get_handle\<close>, which retrieves the public
  handle and the byte pitch from a buffer object.  \<open>None\<close> when the pointer is not a
  live object.\<close>

definition gralloc_drm_bo_get_handle :: "drm_module_t \<Rightarrow> addr \<Rightarrow> (addr \<times> int) option" where
  "gralloc_drm_bo_get_handle st bo =
     (case bos st bo of
        None \<Rightarrow> None
      | Some b \<Rightarrow>
          (case handles st (handle b) of
             None \<Rightarrow> None
           | Some h \<Rightarrow> Some (handle b, stride h)))"

text \<open>Modelled from the spec: \<^verbatim>\<open>gralloc_drm_get_bpp\<close>, the query of the format
  catalog; zero for a format the catalog does not know.\<close>

definition gralloc_drm_get_bpp :: "driver \<Rightarrow> int \<Rightarrow> int" where
  "gralloc_drm_get_bpp drv fmt = drv_get_bpp drv fmt"

text \<open>Modelled from the spec: \<^verbatim>\<open>gralloc_drm_handle_register\<close>, which imports the
  kernel identifier, attaches a local buffer object to the handle where it has none, and
  increments the reference count.\<close>

definition gralloc_drm_handle_register ::
  "driver \<Rightarrow> addr \<Rightarrow> drm_module_t \<Rightarrow> int \<times> drm_module_t" where
  "gralloc_drm_handle_register drv hnd st =
     (case handles st hnd of
        None \<Rightarrow> (- EINVAL, st)
      | Some h \<Rightarrow>
          (case gralloc_drm_bo_from_handle st hnd of
             Some bo \<Rightarrow>
               (0, st\<lparr>bos := (\<lambda>a. if a = bo
                                    then map_option (\<lambda>b. b\<lparr>refcount := refcount b + 1\<rparr>) (bos st a)
                                    else bos st a)\<rparr>)
           | None \<Rightarrow>
               (case drv_import drv hnd of
                  None \<Rightarrow> (- EINVAL, st)
                | Some bo \<Rightarrow>
                    (0, st\<lparr>bos := (bos st)(bo \<mapsto> \<lparr>handle = hnd, refcount = 1, locked = None\<rparr>),
                           handles := (handles st)(hnd \<mapsto> h\<lparr>data := Some bo\<rparr>)\<rparr>))))"

text \<open>Modelled from the spec: \<^verbatim>\<open>gralloc_drm_handle_unregister\<close>, which decrements the
  reference count of the handle's buffer object; a handle that does not resolve is
  BadHandle.\<close>

definition gralloc_drm_handle_unregister :: "addr \<Rightarrow> drm_module_t \<Rightarrow> int \<times> drm_module_t" where
  "gralloc_drm_handle_unregister hnd st =
     (case gralloc_drm_bo_from_handle st hnd of
        None \<Rightarrow> (- EINVAL, st)
      | Some bo \<Rightarrow> (0, gralloc_drm_bo_decref bo st))"

text \<open>Modelled from the spec: \<^verbatim>\<open>gralloc_drm_bo_lock\<close>, which delegates the mapping to
  the driver.  The driver answers a status and the mapped address; on status \<open>0\<close> the
  object is locked with the usage and the region.\<close>

definition gralloc_drm_bo_lock ::
  "driver \<Rightarrow> addr \<Rightarrow> int \<Rightarrow> int \<Rightarrow> int \<Rightarrow> int \<Rightarrow> int \<Rightarrow> drm_module_t
     \<Rightarrow> (int + ptr) \<times> drm_module_t" where
  "gralloc_drm_bo_lock drv bo usg x y w h st =
     (case drv_map drv bo usg x y w h of
        (err, p) \<Rightarrow>
          (if err \<noteq> 0 then (Inl err, st)
           else (Inr p,
                 st\<lparr>bos := (\<lambda>a. if a = bo
                                  then map_option (\<lambda>b. b\<lparr>locked := Some (usg, x, y, w, h)\<rparr>) (bos st a)
                                  else bos st a)\<rparr>)))"

text \<open>Modelled from the spec: \<^verbatim>\<open>gralloc_drm_bo_unlock\<close>, which releases the mapping
  (Locked to Unlocked).\<close>

definition gralloc_drm_bo_unlock :: "addr \<Rightarrow> drm_module_t \<Rightarrow> drm_module_t" where
  "gralloc_drm_bo_unlock bo st =
     st\<lparr>bos := (\<lambda>a. if a = bo
                      then map_option (\<lambda>b. b\<lparr>locked := None\<rparr>) (bos st a)
                      else bos st a)\<rparr>"

text \<open>Modelled from the spec: \<^verbatim>\<open>gralloc_drm_resolve_format\<close>, the driver's per-plane
  arrays \<open>pitches[0..3]\<close>, \<open>offsets[0..3]\<close> and \<open>handles[0..3]\<close> of a handle.\<close>

definition gralloc_drm_resolve_format ::
  "driver \<Rightarrow> addr \<Rightarrow> (nat \<Rightarrow> uint32_t) \<times> (nat \<Rightarrow> uint32_t) \<times> (nat \<Rightarrow> uint32_t)" where
  "gralloc_drm_resolve_format drv hnd = drv_resolve_format drv hnd"

subsection \<open>Device bring-up and close\<close>

definition drm_init :: "driver \<Rightarrow> drm_module_t \<Rightarrow> int \<times> drm_module_t" where
  "drm_init drv dmod =
     (if drm dmod = None
      then (case gralloc_drm_create drv dmod of
              (None, st) \<Rightarrow> (- EINVAL, st\<lparr>drm := None\<rparr>)
            | (Some d, st) \<Rightarrow> (0, st\<lparr>drm := Some d\<rparr>))
      else (0, dmod))"

text \<open>\<open>dev\<close> is the allocator device being closed; \<^verbatim>\<open>delete alloc\<close> ends its life.\<close>

definition drm_mod_close_gpu0 :: "addr \<Rightarrow> drm_module_t \<Rightarrow> int \<times> drm_module_t" where
  "drm_mod_close_gpu0 dev dmod =
     (let st = gralloc_drm_destroy (drm dmod) dmod
      in (0, st\<lparr>alloc_devs := removeAll dev (alloc_devs st)\<rparr>))"

subsection \<open>Allocation and destruction\<close>

text \<open>C integer division truncates towards zero.\<close>

definition c_div :: "int \<Rightarrow> int \<Rightarrow> int" where
  "c_div a b = sgn a * sgn b * (\<bar>a\<bar> div \<bar>b\<bar>)"

text \<open>
  \<open>slot\<close> is the address of the caller's \<^verbatim>\<open>buffer_handle_t\<close> (the parameter \<^verbatim>\<open>handle\<close> of
  the source), which is what the registry stores; the outputs are the handle written to
  it and the stride.  The buffer object that \<^verbatim>\<open>gralloc_drm_bo_create\<close> has just returned
  is live, so the reading of its handle always succeeds (\<open>bo_create_Some\<close> below);
  the branch for the other case is never taken.
\<close>

definition drm_mod_create_buffer ::
  "driver \<Rightarrow> drm_module_t \<Rightarrow> int \<Rightarrow> int \<Rightarrow> int \<Rightarrow> int \<Rightarrow> addr
     \<Rightarrow> (int + addr \<times> int) \<times> drm_module_t" where
  "drm_mod_create_buffer drv dmod w h fmt usg slot =
     (let fmt1 = (if fmt = HAL_PIXEL_FORMAT_IMPLEMENTATION_DEFINED
                  then HAL_PIXEL_FORMAT_RGBA_8888 else fmt);
          bpp = gralloc_drm_get_bpp drv fmt1
      in if bpp = 0 then (Inl (- EINVAL), dmod)
         else (case gralloc_drm_bo_create drv w h fmt1 usg dmod of
                 (None, st) \<Rightarrow> (Inl (- ENOMEM), st)
               | (Some bo, st) \<Rightarrow>
                   (case gralloc_drm_bo_get_handle st bo of
                      None \<Rightarrow> (Inl (- EINVAL), st)
                    | Some (hnd, pitch) \<Rightarrow>
                        (Inr (hnd, c_div pitch bpp),
                         st\<lparr>all_records := records_insert (bo, slot) (all_records st)\<rparr>))))"

definition drm_mod_destroy_buffer :: "drm_module_t \<Rightarrow> addr \<Rightarrow> int \<times> drm_module_t" where
  "drm_mod_destroy_buffer dmod hnd =
     (case gralloc_drm_bo_from_handle dmod hnd of
        None \<Rightarrow> (- EINVAL, dmod)
      | Some bo \<Rightarrow>
          (let st = gralloc_drm_bo_decref bo dmod
           in (case records_find bo (all_records st) of
                 None \<Rightarrow> (- EINVAL, st)
               | Some s \<Rightarrow> (0, st\<lparr>all_records := records_erase bo (all_records st)\<rparr>))))"

definition drm_mod_free_gpu0 :: "drm_module_t \<Rightarrow> addr \<Rightarrow> int \<times> drm_module_t" where
  "drm_mod_free_gpu0 dmod hnd = drm_mod_destroy_buffer dmod hnd"

definition drm_mod_alloc_gpu0 ::
  "driver \<Rightarrow> drm_module_t \<Rightarrow> int \<Rightarrow> int \<Rightarrow> int \<Rightarrow> int \<Rightarrow> addr
     \<Rightarrow> (int + addr \<times> int) \<times> drm_module_t" where
  "drm_mod_alloc_gpu0 drv dmod w h fmt usg slot = drm_mod_create_buffer drv dmod w h fmt usg slot"

subsection \<open>Registration, lock and unlock\<close>

definition drm_mod_register_buffer :: "driver \<Rightarrow> drm_module_t \<Rightarrow> addr \<Rightarrow> int \<times> drm_module_t" where
  "drm_mod_register_buffer drv dmod hnd =
     (case drm_init drv dmod of
        (err, st) \<Rightarrow>
          (if err \<noteq> 0 then (err, st) else gralloc_drm_handle_register drv hnd st))"

definition drm_mod_unregister_buffer :: "drm_module_t \<Rightarrow> addr \<Rightarrow> int \<times> drm_module_t" where
  "drm_mod_unregister_buffer dmod hnd = gralloc_drm_handle_unregister hnd dmod"

definition drm_mod_lock ::
  "driver \<Rightarrow> drm_module_t \<Rightarrow> addr \<Rightarrow> int \<Rightarrow> int \<Rightarrow> int \<Rightarrow> int \<Rightarrow> int
     \<Rightarrow> (int + ptr) \<times> drm_module_t" where
  "drm_mod_lock drv dmod hnd usg x y w h =
     (case gralloc_drm_bo_from_handle dmod hnd of
        None \<Rightarrow> (Inl (- EINVAL), dmod)
      | Some bo \<Rightarrow> gralloc_drm_bo_lock drv bo usg x y w h dmod)"

definition drm_mod_unlock :: "drm_module_t \<Rightarrow> addr \<Rightarrow> int \<times> drm_module_t" where
  "drm_mod_unlock dmod hnd =
     (case gralloc_drm_bo_from_handle dmod hnd of
        None \<Rightarrow> (- EINVAL, dmod)
      | Some bo \<Rightarrow> (0, gralloc_drm_bo_unlock bo dmod))"

subsection \<open>The planar lock\<close>

text \<open>\<^verbatim>\<open>struct android_ycbcr\<close>: three plane pointers and three \<^verbatim>\<open>size_t\<close> fields.\<close>

record android_ycbcr =
  ycbcr_y :: ptr
  ycbcr_cb :: ptr
  ycbcr_cr :: ptr
  ystride :: nat
  cstride :: nat
  chroma_step :: nat

text \<open>\<^verbatim>\<open>bo->handle\<close> dereferenced.\<close>

definition bo_handle :: "drm_module_t \<Rightarrow> addr \<Rightarrow> gralloc_drm_handle_t option" where
  "bo_handle st bo =
     (case bos st bo of
        None \<Rightarrow> None
      | Some b \<Rightarrow> handles st (handle b))"

text \<open>
  \<open>yc_in\<close> is the caller's descriptor before the call.  The plane offsets are
  \<^verbatim>\<open>uint32_t\<close>, so their differences wrap around at \<open>2 ^ 32\<close>; the difference is then
  added to the byte pointer.  \<^verbatim>\<open>ptr\<close> starts as \<^verbatim>\<open>NULL\<close> and is written only by the
  generic lock.  The format is read twice from the same handle, which nothing in
  between writes.  A buffer object that \<^verbatim>\<open>gralloc_drm_bo_from_handle\<close> resolved has a live
  handle (\<open>from_handle_bo_handle\<close> below), so the branch for the other case is never taken.
\<close>

definition drm_mod_lock_ycbcr ::
  "driver \<Rightarrow> drm_module_t \<Rightarrow> addr \<Rightarrow> int \<Rightarrow> int \<Rightarrow> int \<Rightarrow> int \<Rightarrow> int \<Rightarrow> android_ycbcr
     \<Rightarrow> (int + android_ycbcr) \<times> drm_module_t" where
  "drm_mod_lock_ycbcr drv dmod bhandle usg x y w h yc_in =
     (case gralloc_drm_bo_from_handle dmod bhandle of
        None \<Rightarrow> (Inl (- EINVAL), dmod)
      | Some bo \<Rightarrow>
          (case bo_handle dmod bo of
             None \<Rightarrow> (Inl (- EINVAL), dmod)
           | Some gh \<Rightarrow>
               (if format gh \<noteq> HAL_PIXEL_FORMAT_YV12
                   \<and> format gh \<noteq> HAL_PIXEL_FORMAT_YCbCr_420_888
                then (Inl (- EINVAL), dmod)
                else
                  (case (if usg \<noteq> 0 then gralloc_drm_bo_lock drv bo usg x y w h dmod
                         else (Inr 0, dmod)) of
                     (Inl err, st) \<Rightarrow> (Inl err, st)
                   | (Inr p, st) \<Rightarrow>
                       (case gralloc_drm_resolve_format drv bhandle of
                          (pitches, offsets, hs) \<Rightarrow>
                            (if format gh = HAL_PIXEL_FORMAT_YV12
                                \<or> format gh = HAL_PIXEL_FORMAT_YCbCr_420_888
                             then (Inr \<lparr>ycbcr_y = p,
                                        ycbcr_cb = p + ucast (offsets 1 - offsets 2),
                                        ycbcr_cr = p + ucast (offsets 2 - offsets 0),
                                        ystride = unat (pitches 0),
                                        cstride = unat (pitches 1),
                                        chroma_step = 1\<rparr>, st)
                             else (Inr yc_in, st)))))))"

subsection \<open>The variadic control channel\<close>

text \<open>The op codes are enumerators of \<^verbatim>\<open>gralloc_drm.h\<close>; they are a parameter.\<close>

record perform_ops =
  GRALLOC_MODULE_PERFORM_GET_DRM_FD :: int
  GRALLOC_MODULE_PERFORM_DRM_IMPORT :: int
  GRALLOC_MODULE_PERFORM_CREATE_BUFFER :: int
  GRALLOC_MODULE_PERFORM_DESTROY_BUFFER :: int

text \<open>
  The variadic arguments, as each case of the switch reads them with \<^verbatim>\<open>va_arg\<close>:
  \<open>va_import\<close> is \<open>(fd, handle)\<close>, \<open>va_create\<close> is \<open>(width, height, format, usage, handle
  slot)\<close>, \<open>va_destroy\<close> is the handle.  The out-pointers of the first two cases are
  the outputs below.
\<close>

record va_list =
  va_import :: "int \<times> addr"
  va_create :: "uint32_t \<times> uint32_t \<times> int \<times> int \<times> addr"
  va_destroy :: addr

datatype perform_out = Out_none | Out_fd int | Out_handle addr

text \<open>Modelled from the spec: \<^verbatim>\<open>gralloc_drm_handle\<close>, the module's view of a
  \<^verbatim>\<open>buffer_handle_t\<close>, null when the handle is not one of its own.\<close>

definition gralloc_drm_handle :: "drm_module_t \<Rightarrow> addr \<Rightarrow> addr option" where
  "gralloc_drm_handle st hnd = (if handles st hnd = None then None else Some hnd)"

text \<open>Modelled from the spec: \<^verbatim>\<open>gralloc_drm_get_fd\<close>, the kernel device descriptor of
  the device.\<close>

definition gralloc_drm_get_fd :: "driver \<Rightarrow> addr option \<Rightarrow> int" where
  "gralloc_drm_get_fd drv d = drv_get_fd drv d"

text \<open>The \<^verbatim>\<open>uint32_t\<close> width and height of \<^verbatim>\<open>CREATE_BUFFER\<close> are passed to \<^verbatim>\<open>int\<close>
  parameters.\<close>

definition drm_mod_perform ::
  "driver \<Rightarrow> perform_ops \<Rightarrow> drm_module_t \<Rightarrow> int \<Rightarrow> va_list
     \<Rightarrow> (int \<times> perform_out) \<times> drm_module_t" where
  "drm_mod_perform drv ops dmod opc args =
     (case drm_init drv dmod of
        (err, st) \<Rightarrow>
          (if err \<noteq> 0 then ((err, Out_none), st)
           else if opc = GRALLOC_MODULE_PERFORM_GET_DRM_FD ops
           then ((0, Out_fd (gralloc_drm_get_fd drv (drm st))), st)
           else if opc = GRALLOC_MODULE_PERFORM_DRM_IMPORT ops
           then (case va_import args of
                   (fd, hnd) \<Rightarrow>
                     (case gralloc_drm_handle st hnd of
                        None \<Rightarrow> ((- EINVAL, Out_none), st)
                      | Some gr_handle \<Rightarrow>
                          (case drv_resolve_buffer drv of
                             Some resolve_buffer \<Rightarrow> ((resolve_buffer fd gr_handle, Out_none), st)
                           | None \<Rightarrow> ((- EINVAL, Out_none), st))))
           else if opc = GRALLOC_MODULE_PERFORM_CREATE_BUFFER ops
           then (case va_create args of
                   (wd, ht, fmt, usg, slot) \<Rightarrow>
                     (case drm_mod_create_buffer drv st (sint wd) (sint ht) fmt usg slot of
                        (Inl e, st1) \<Rightarrow> ((e, Out_none), st1)
                      | (Inr (hnd, pixel_stride), st1) \<Rightarrow> ((0, Out_handle hnd), st1)))
           else if opc = GRALLOC_MODULE_PERFORM_DESTROY_BUFFER ops
           then (case drm_mod_destroy_buffer st (va_destroy args) of
                   (e, st1) \<Rightarrow> ((e, Out_none), st1))
           else ((- EINVAL, Out_none), st)))"

subsection \<open>Opening the allocator device\<close>

definition GRALLOC_HARDWARE_GPU0 :: string where
  "GRALLOC_HARDWARE_GPU0 = ''gpu0''"

text \<open>\<open>drv_new\<close> is what \<^verbatim>\<open>new alloc_device_t\<close> returns.\<close>

definition drm_mod_open_gpu0 :: "driver \<Rightarrow> drm_module_t \<Rightarrow> (int + addr) \<times> drm_module_t" where
  "drm_mod_open_gpu0 drv dmod =
     (case drm_init drv dmod of
        (err, st) \<Rightarrow>
          (if err \<noteq> 0 then (Inl err, st)
           else (case drv_new drv of
                   None \<Rightarrow> (Inl (- EINVAL), st)
                 | Some a \<Rightarrow> (Inr a, st\<lparr>alloc_devs := a # alloc_devs st\<rparr>))))"

definition drm_mod_open :: "driver \<Rightarrow> drm_module_t \<Rightarrow> string \<Rightarrow> (int + addr) \<times> drm_module_t" where
  "drm_mod_open drv dmod name =
     (if name = GRALLOC_HARDWARE_GPU0 then drm_mod_open_gpu0 drv dmod
      else (Inl (- EINVAL), dmod))"

subsection \<open>The registry dump\<close>

text \<open>
  The caller's buffer is the memory from \<^verbatim>\<open>buff\<close> on; a store is a pair of the offset
  from \<^verbatim>\<open>buff\<close> and the byte stored.  The buffer owns the offsets \<open>0 \<le> i < buff_len\<close>.

  \<^verbatim>\<open>snprintf(dst, n, ...)\<close> stores at most \<open>n - 1\<close> characters of the formatted text and a
  terminating zero, nothing when \<open>n = 0\<close>, and returns the length of the whole text.
  Its second parameter is a \<^verbatim>\<open>size_t\<close>: the \<^verbatim>\<open>int\<close> argument is converted modulo \<open>2 ^ 64\<close>.
\<close>

type_synonym store = "int \<times> char"

definition size_t_of_int :: "int \<Rightarrow> nat" where
  "size_t_of_int i = nat (i mod 2 ^ 64)"

definition snprintf :: "int \<Rightarrow> nat \<Rightarrow> string \<Rightarrow> store list \<times> int" where
  "snprintf dst n s =
     (if n = 0 then ([], int (length s))
      else (let k = min (length s) (n - 1)
            in (zip (map (\<lambda>i. dst + int i) [0..<k]) (take k s) @ [(dst + int k, CHR 0x00)],
                int (length s))))"

definition digit_char :: "nat \<Rightarrow> char" where
  "digit_char d = (if d < 16 then ''0123456789abcdef'' ! d else CHR ''?'')"

function show_nat :: "nat \<Rightarrow> nat \<Rightarrow> string" where
  "show_nat b n =
     (if n < b \<or> b < 2 then [digit_char n]
      else show_nat b (n div b) @ [digit_char (n mod b)])"
  by pat_completeness auto
termination
  by (relation "measure snd") auto

text \<open>The conversions \<^verbatim>\<open>%d\<close> and \<^verbatim>\<open>%x\<close> of an \<^verbatim>\<open>int\<close>; \<^verbatim>\<open>%x\<close> prints it as an
  \<^verbatim>\<open>unsigned int\<close>.\<close>

definition show_d :: "int \<Rightarrow> string" where
  "show_d i = (if i < 0 then CHR ''-'' # show_nat 10 (nat (- i)) else show_nat 10 (nat i))"

definition show_x :: "int \<Rightarrow> string" where
  "show_x i = show_nat 16 (nat (i mod 2 ^ 32))"

definition dump_header :: string where
  "dump_header = ''dump all buffer objects info:'' @ [CHR 0x0A]"

text \<open>The text of one entry.  \<open>show_p\<close> is the conversion \<^verbatim>\<open>%p\<close>, which the C library
  defines.  \<open>None\<close> when the registry's key is not a live buffer object with a live
  handle: the source dereferences it all the same, which is undefined.\<close>

definition dump_entry :: "(addr \<Rightarrow> string) \<Rightarrow> drm_module_t \<Rightarrow> addr \<times> addr \<Rightarrow> string option" where
  "dump_entry show_p st it =
     (case bo_handle st (fst it) of
        None \<Rightarrow> None
      | Some gh \<Rightarrow>
          Some (''bo: '' @ show_p (fst it) @ '', handle: '' @ show_p (snd it)
                @ '', width: '' @ show_d (width gh) @ '', height: '' @ show_d (height gh)
                @ '', format: '' @ show_x (format gh) @ '', usage: '' @ show_x (usage gh)
                @ [CHR 0x0A]))"

fun dump_loop ::
  "(addr \<Rightarrow> string) \<Rightarrow> drm_module_t \<Rightarrow> int \<Rightarrow> int \<Rightarrow> (addr \<times> addr) list \<Rightarrow> store list option" where
  "dump_loop show_p st buff_len used [] = Some []"
| "dump_loop show_p st buff_len used (it # rest) =
     (case dump_entry show_p st it of
        None \<Rightarrow> None
      | Some s \<Rightarrow>
          (case snprintf used (size_t_of_int (buff_len - used)) s of
             (ws, n) \<Rightarrow>
               (if used + n \<ge> buff_len then Some ws
                else (case dump_loop show_p st buff_len (used + n) rest of
                        None \<Rightarrow> None
                      | Some ws1 \<Rightarrow> Some (ws @ ws1)))))"

text \<open>The stores of \<^verbatim>\<open>drm_mod_dump_gpu0\<close>, in order.  The function returns nothing else
  and has no other effect.\<close>

definition drm_mod_dump_gpu0 ::
  "(addr \<Rightarrow> string) \<Rightarrow> drm_module_t \<Rightarrow> int \<Rightarrow> store list option" where
  "drm_mod_dump_gpu0 show_p st buff_len =
     (case snprintf 0 (size_t_of_int (buff_len - 0)) dump_header of
        (ws, n) \<Rightarrow>
          (case dump_loop show_p st buff_len (0 + n) (all_records st) of
             None \<Rightarrow> None
           | Some ws1 \<Rightarrow> Some (ws @ ws1)))"

subsection \<open>The exported module and example inputs\<close>

text \<open>The module as the file initialises it: no device, an empty registry.\<close>

definition HAL_MODULE_INFO_SYM :: drm_module_t where
  "HAL_MODULE_INFO_SYM =
     \<lparr>drm = None, all_records = [], devices = [], alloc_devs = [],
      bos = Map.empty, handles = Map.empty\<rparr>"

text \<open>
  A back-end for the examples: device \<open>1\<close>, allocator device \<open>5\<close>; four bytes per pixel
  for RGBA 8888 and one for YV12; every allocation is buffer object \<open>10\<close> with handle
  \<open>20\<close> and a pitch of the row's bytes rounded up to a multiple of 64; the planes of a
  320 by 240 YV12 buffer.
\<close>

definition ex_drv :: driver where
  "ex_drv =
     \<lparr>drv_create = Some 1,
      drv_get_fd = (\<lambda>d. 3),
      drv_get_bpp = (\<lambda>f. if f = HAL_PIXEL_FORMAT_RGBA_8888 then 4
                          else if f = HAL_PIXEL_FORMAT_YV12 then 1 else 0),
      drv_alloc = (\<lambda>w h f u.
         Some (10, 20, ((w * (if f = HAL_PIXEL_FORMAT_RGBA_8888 then 4 else 1) + 63) div 64) * 64)),
      drv_import = (\<lambda>h. None),
      drv_map = (\<lambda>bo u x y w h. (0, 4096)),
      drv_resolve_format = (\<lambda>h.
         ((\<lambda>i. if i = 0 then 320 else if i = 1 then 160 else if i = 2 then 160 else 0),
          (\<lambda>i. if i = 1 then 76800 else if i = 2 then 96000 else 0),
          (\<lambda>i. 0))),
      drv_resolve_buffer = None,
      drv_new = Some 5\<rparr>"

definition ex_ops :: perform_ops where
  "ex_ops =
     \<lparr>GRALLOC_MODULE_PERFORM_GET_DRM_FD = 1,
      GRALLOC_MODULE_PERFORM_DRM_IMPORT = 2,
      GRALLOC_MODULE_PERFORM_CREATE_BUFFER = 3,
      GRALLOC_MODULE_PERFORM_DESTROY_BUFFER = 4\<rparr>"

definition ex_args :: va_list where
  "ex_args = \<lparr>va_import = (0, 0), va_create = (0, 0, 0, 0, 0), va_destroy = 0\<rparr>"

text \<open>The module after \<^verbatim>\<open>open\<close> of the GPU-0 allocator.\<close>

definition ex_open :: drm_module_t where
  "ex_open = snd (drm_mod_open ex_drv HAL_MODULE_INFO_SYM ''gpu0'')"

text \<open>The module after the allocation of a 320 by 240 YV12 buffer with usage \<open>0\<close>, and
  a planar descriptor for the caller to pass.\<close>

definition ex_yv12 :: drm_module_t where
  "ex_yv12 = snd (drm_mod_alloc_gpu0 ex_drv ex_open 320 240 HAL_PIXEL_FORMAT_YV12 0 100)"

definition ex_ycbcr :: android_ycbcr where
  "ex_ycbcr = \<lparr>ycbcr_y = 0, ycbcr_cb = 0, ycbcr_cr = 0, ystride = 0, cstride = 0, chroma_step = 0\<rparr>"

text \<open>The module after the allocation of a 250 by 256 RGBA 8888 buffer, and after a
  \<^verbatim>\<open>registerBuffer\<close> of its handle on top of that.\<close>

definition ex_rgba :: drm_module_t where
  "ex_rgba = snd (drm_mod_alloc_gpu0 ex_drv ex_open 250 256 HAL_PIXEL_FORMAT_RGBA_8888 0 100)"

definition ex_shared :: drm_module_t where
  "ex_shared = snd (drm_mod_register_buffer ex_drv ex_rgba 20)"

text \<open>The module of \<open>ex_rgba\<close> after an \<^verbatim>\<open>unregisterBuffer\<close> of the handle: the buffer
  object is released, its registry entry stays.\<close>

definition ex_stale :: drm_module_t where
  "ex_stale = snd (drm_mod_unregister_buffer ex_rgba 20)"



text \<open>A conversion \<^verbatim>\<open>%p\<close>: \<open>0x\<close> and the address in hexadecimal.\<close>

definition ex_show_p :: "addr \<Rightarrow> string" where
  "ex_show_p a = ''0x'' @ show_nat 16 a"

section \<open>Properties\<close>

subsection \<open>Device bring-up\<close>

lemma drm_init_live: "drm dmod \<noteq> None \<Longrightarrow> drm_init drv dmod = (0, dmod)"
  by (auto simp: drm_init_def)

lemma drm_init_all_records: "all_records (snd (drm_init drv dmod)) = all_records dmod"
  by (simp add: drm_init_def gralloc_drm_create_def split: option.splits)

lemma drm_init_status: "fst (drm_init drv dmod) = 0 \<or> fst (drm_init drv dmod) = - EINVAL"
  by (simp add: drm_init_def gralloc_drm_create_def split: option.splits)

lemma ex_open_eq:
  "ex_open = HAL_MODULE_INFO_SYM\<lparr>drm := Some 1, devices := [1], alloc_devs := [5]\<rparr>"
  by (simp add: ex_open_def drm_mod_open_def GRALLOC_HARDWARE_GPU0_def drm_mod_open_gpu0_def
      drm_init_def gralloc_drm_create_def ex_drv_def HAL_MODULE_INFO_SYM_def)

subsection \<open>The control channel\<close>

text \<open>
  C8, as amended: for every op code outside the supported set, \<^verbatim>\<open>perform\<close> first invokes
  device bring-up and returns \<open>- EINVAL\<close> (BadOp, and DeviceInit when bring-up fails, are
  this code); the registry is unchanged, and the state is the one bring-up leaves: the
  module as it was when the device was already live, and otherwise the module with the
  pointer set to what \<^verbatim>\<open>gralloc_drm_create\<close> returned.
\<close>

theorem perform_unknown_op:
  assumes "opc \<noteq> GRALLOC_MODULE_PERFORM_GET_DRM_FD ops"
      and "opc \<noteq> GRALLOC_MODULE_PERFORM_DRM_IMPORT ops"
      and "opc \<noteq> GRALLOC_MODULE_PERFORM_CREATE_BUFFER ops"
      and "opc \<noteq> GRALLOC_MODULE_PERFORM_DESTROY_BUFFER ops"
  shows "drm_mod_perform drv ops dmod opc args = ((- EINVAL, Out_none), snd (drm_init drv dmod))
       \<and> all_records (snd (drm_mod_perform drv ops dmod opc args)) = all_records dmod
       \<and> (if drm dmod = None
           then snd (drm_mod_perform drv ops dmod opc args)
                  = snd (gralloc_drm_create drv dmod)\<lparr>drm := drv_create drv\<rparr>
           else snd (drm_mod_perform drv ops dmod opc args) = dmod)"
proof -
  obtain err st where i: "drm_init drv dmod = (err, st)"
    by (cases "drm_init drv dmod")
  have "err = 0 \<or> err = - EINVAL"
    using drm_init_status [of drv dmod] i by simp
  then have 1: "drm_mod_perform drv ops dmod opc args = ((- EINVAL, Out_none), st)"
    using assms i by (auto simp: drm_mod_perform_def)
  have 2: "all_records st = all_records dmod"
    using drm_init_all_records [of drv dmod] i by simp
  have 3: "if drm dmod = None then st = snd (gralloc_drm_create drv dmod)\<lparr>drm := drv_create drv\<rparr>
           else st = dmod"
    using i by (auto simp: drm_init_def gralloc_drm_create_def split: option.splits)
  from 1 2 3 i show ?thesis by simp
qed

theorem perform_unknown_op_witness:
  "57005 \<noteq> GRALLOC_MODULE_PERFORM_GET_DRM_FD ex_ops
   \<and> 57005 \<noteq> GRALLOC_MODULE_PERFORM_DRM_IMPORT ex_ops
   \<and> 57005 \<noteq> GRALLOC_MODULE_PERFORM_CREATE_BUFFER ex_ops
   \<and> 57005 \<noteq> GRALLOC_MODULE_PERFORM_DESTROY_BUFFER ex_ops
   \<and> drm ex_open = Some 1
   \<and> drm_mod_perform ex_drv ex_ops ex_open 57005 ex_args = ((- EINVAL, Out_none), ex_open)"
proof -
  have a: "57005 \<noteq> GRALLOC_MODULE_PERFORM_GET_DRM_FD ex_ops"
    and b: "57005 \<noteq> GRALLOC_MODULE_PERFORM_DRM_IMPORT ex_ops"
    and c: "57005 \<noteq> GRALLOC_MODULE_PERFORM_CREATE_BUFFER ex_ops"
    and d: "57005 \<noteq> GRALLOC_MODULE_PERFORM_DESTROY_BUFFER ex_ops"
    by (simp_all add: ex_ops_def)
  have live: "drm ex_open = Some 1"
    by (simp add: ex_open_eq)
  then have "drm_init ex_drv ex_open = (0, ex_open)"
    by (simp add: drm_init_live)
  with a b c d live perform_unknown_op [OF a b c d, of ex_drv ex_open ex_args] show ?thesis
    by simp
qed

text \<open>
  C8 with the device state unchanged in every case does not hold.  On the module as the
  file initialises it the device is not yet there: \<^verbatim>\<open>perform(0xDEAD)\<close> brings it up before
  it returns \<open>- EINVAL\<close>, and the device state has changed from no device to device \<open>1\<close>.
\<close>

theorem perform_unknown_op_counterexample:
  "57005 \<noteq> GRALLOC_MODULE_PERFORM_GET_DRM_FD ex_ops
   \<and> 57005 \<noteq> GRALLOC_MODULE_PERFORM_DRM_IMPORT ex_ops
   \<and> 57005 \<noteq> GRALLOC_MODULE_PERFORM_CREATE_BUFFER ex_ops
   \<and> 57005 \<noteq> GRALLOC_MODULE_PERFORM_DESTROY_BUFFER ex_ops
   \<and> fst (drm_mod_perform ex_drv ex_ops HAL_MODULE_INFO_SYM 57005 ex_args) = (- EINVAL, Out_none)
   \<and> drm HAL_MODULE_INFO_SYM = None
   \<and> devices HAL_MODULE_INFO_SYM = []
   \<and> drm (snd (drm_mod_perform ex_drv ex_ops HAL_MODULE_INFO_SYM 57005 ex_args)) = Some 1
   \<and> devices (snd (drm_mod_perform ex_drv ex_ops HAL_MODULE_INFO_SYM 57005 ex_args)) = [1]"
  by (simp add: drm_mod_perform_def drm_init_def gralloc_drm_create_def ex_drv_def ex_ops_def
      HAL_MODULE_INFO_SYM_def)

subsection \<open>Frame of unregister, lock and unlock\<close>

lemma decref_frame:
  "drm (gralloc_drm_bo_decref bo st) = drm st
   \<and> devices (gralloc_drm_bo_decref bo st) = devices st
   \<and> all_records (gralloc_drm_bo_decref bo st) = all_records st"
  by (simp add: gralloc_drm_bo_decref_def split: option.splits)

lemma bo_lock_frame:
  "drm (snd (gralloc_drm_bo_lock drv bo usg x y w h st)) = drm st
   \<and> devices (snd (gralloc_drm_bo_lock drv bo usg x y w h st)) = devices st
   \<and> all_records (snd (gralloc_drm_bo_lock drv bo usg x y w h st)) = all_records st"
  by (simp add: gralloc_drm_bo_lock_def split: prod.splits)

lemma bo_unlock_frame:
  "drm (gralloc_drm_bo_unlock bo st) = drm st
   \<and> devices (gralloc_drm_bo_unlock bo st) = devices st
   \<and> all_records (gralloc_drm_bo_unlock bo st) = all_records st"
  by (simp add: gralloc_drm_bo_unlock_def)

text \<open>
  C10: \<^verbatim>\<open>unregisterBuffer\<close>, \<^verbatim>\<open>lock\<close> and \<^verbatim>\<open>unlock\<close> never perform device bring-up.  Each
  resolves the buffer object from the handle; when the handle does not resolve the call
  returns \<open>- EINVAL\<close> (BadHandle) and changes nothing; otherwise it is the driver adapter's
  call (decrement, lock, unlock) on that object.  In every case the device pointer, the
  live devices and the registry are those of before.
\<close>

theorem unregister_lock_unlock_frame:
  "(case gralloc_drm_bo_from_handle dmod hnd of
      None \<Rightarrow>
        drm_mod_unregister_buffer dmod hnd = (- EINVAL, dmod)
        \<and> drm_mod_lock drv dmod hnd usg x y w h = (Inl (- EINVAL), dmod)
        \<and> drm_mod_unlock dmod hnd = (- EINVAL, dmod)
    | Some bo \<Rightarrow>
        drm_mod_unregister_buffer dmod hnd = (0, gralloc_drm_bo_decref bo dmod)
        \<and> drm_mod_lock drv dmod hnd usg x y w h = gralloc_drm_bo_lock drv bo usg x y w h dmod
        \<and> drm_mod_unlock dmod hnd = (0, gralloc_drm_bo_unlock bo dmod))
   \<and> drm (snd (drm_mod_unregister_buffer dmod hnd)) = drm dmod
   \<and> devices (snd (drm_mod_unregister_buffer dmod hnd)) = devices dmod
   \<and> all_records (snd (drm_mod_unregister_buffer dmod hnd)) = all_records dmod
   \<and> drm (snd (drm_mod_lock drv dmod hnd usg x y w h)) = drm dmod
   \<and> devices (snd (drm_mod_lock drv dmod hnd usg x y w h)) = devices dmod
   \<and> all_records (snd (drm_mod_lock drv dmod hnd usg x y w h)) = all_records dmod
   \<and> drm (snd (drm_mod_unlock dmod hnd)) = drm dmod
   \<and> devices (snd (drm_mod_unlock dmod hnd)) = devices dmod
   \<and> all_records (snd (drm_mod_unlock dmod hnd)) = all_records dmod"
proof (cases "gralloc_drm_bo_from_handle dmod hnd")
  case None
  then show ?thesis
    by (simp add: drm_mod_unregister_buffer_def gralloc_drm_handle_unregister_def
        drm_mod_lock_def drm_mod_unlock_def)
next
  case (Some bo)
  then show ?thesis
    by (simp add: drm_mod_unregister_buffer_def gralloc_drm_handle_unregister_def
        drm_mod_lock_def drm_mod_unlock_def decref_frame bo_lock_frame bo_unlock_frame)
qed

subsection \<open>Closing the allocator device\<close>

lemma create_buffer_frame:
  "drm (snd (drm_mod_create_buffer drv dmod w h fmt usg slot)) = drm dmod
   \<and> devices (snd (drm_mod_create_buffer drv dmod w h fmt usg slot)) = devices dmod"
  by (simp add: drm_mod_create_buffer_def Let_def gralloc_drm_bo_create_def
      split: option.splits prod.splits)

lemma destroy_buffer_frame:
  "drm (snd (drm_mod_destroy_buffer dmod hnd)) = drm dmod
   \<and> devices (snd (drm_mod_destroy_buffer dmod hnd)) = devices dmod"
  by (simp add: drm_mod_destroy_buffer_def Let_def decref_frame split: option.splits)

lemma handle_register_frame:
  "drm (snd (gralloc_drm_handle_register drv hnd st)) = drm st
   \<and> devices (snd (gralloc_drm_handle_register drv hnd st)) = devices st"
  by (simp add: gralloc_drm_handle_register_def split: option.splits)

lemma perform_live_frame:
  assumes "drm dmod \<noteq> None"
  shows "drm (snd (drm_mod_perform drv ops dmod opc args)) = drm dmod
       \<and> devices (snd (drm_mod_perform drv ops dmod opc args)) = devices dmod"
proof -
  from assms have i: "drm_init drv dmod = (0, dmod)"
    by (rule drm_init_live)
  obtain fd hi where vi: "va_import args = (fd, hi)"
    by (cases "va_import args")
  obtain wd ht fmt usg slot where vc: "va_create args = (wd, ht, fmt, usg, slot)"
    by (cases "va_create args") auto
  obtain r st1 where
    cr: "drm_mod_create_buffer drv dmod (sint wd) (sint ht) fmt usg slot = (r, st1)"
    by (cases "drm_mod_create_buffer drv dmod (sint wd) (sint ht) fmt usg slot")
  have f1: "drm st1 = drm dmod \<and> devices st1 = devices dmod"
    using create_buffer_frame [of drv dmod "sint wd" "sint ht" fmt usg slot] cr by simp
  obtain e st2 where de: "drm_mod_destroy_buffer dmod (va_destroy args) = (e, st2)"
    by (cases "drm_mod_destroy_buffer dmod (va_destroy args)")
  have f2: "drm st2 = drm dmod \<and> devices st2 = devices dmod"
    using destroy_buffer_frame [of dmod "va_destroy args"] de by simp
  show ?thesis
    using i vi vc cr de f1 f2
    by (auto simp: drm_mod_perform_def split: option.splits sum.splits)
qed

lemma open_live_frame:
  assumes "drm dmod \<noteq> None"
  shows "drm (snd (drm_mod_open_gpu0 drv dmod)) = drm dmod
       \<and> devices (snd (drm_mod_open_gpu0 drv dmod)) = devices dmod"
  using assms drm_init_live [of dmod drv]
  by (simp add: drm_mod_open_gpu0_def split: option.splits)

lemma register_live_frame:
  assumes "drm dmod \<noteq> None"
  shows "drm (snd (drm_mod_register_buffer drv dmod hnd)) = drm dmod
       \<and> devices (snd (drm_mod_register_buffer drv dmod hnd)) = devices dmod"
  using assms drm_init_live [of dmod drv]
  by (simp add: drm_mod_register_buffer_def handle_register_frame)

text \<open>
  C9: closing the allocator device destroys the device object that \<^verbatim>\<open>dmod->drm\<close> points
  to and leaves the pointer as it is.  So the pointer is still non-null, the object it
  names is no longer live, and a later \<open>drm_init\<close> returns \<open>0\<close> and changes nothing: it
  constructs no new device.  The same holds for the bring-up at the start of \<^verbatim>\<open>open\<close>,
  \<^verbatim>\<open>registerBuffer\<close> and \<^verbatim>\<open>perform\<close>: after each of them the pointer is the old one and
  the object it names is still not live.
\<close>

theorem close_keeps_drm_pointer:
  assumes "drm dmod = Some d"
  shows "drm (snd (drm_mod_close_gpu0 dev dmod)) = Some d
       \<and> d \<notin> set (devices (snd (drm_mod_close_gpu0 dev dmod)))
       \<and> drm_init drv (snd (drm_mod_close_gpu0 dev dmod)) = (0, snd (drm_mod_close_gpu0 dev dmod))
       \<and> drm (snd (drm_mod_open_gpu0 drv (snd (drm_mod_close_gpu0 dev dmod)))) = Some d
       \<and> d \<notin> set (devices (snd (drm_mod_open_gpu0 drv (snd (drm_mod_close_gpu0 dev dmod)))))
       \<and> drm (snd (drm_mod_register_buffer drv (snd (drm_mod_close_gpu0 dev dmod)) hnd)) = Some d
       \<and> d \<notin> set (devices (snd (drm_mod_register_buffer drv (snd (drm_mod_close_gpu0 dev dmod)) hnd)))
       \<and> drm (snd (drm_mod_perform drv ops (snd (drm_mod_close_gpu0 dev dmod)) opc args)) = Some d
       \<and> d \<notin> set (devices (snd (drm_mod_perform drv ops (snd (drm_mod_close_gpu0 dev dmod)) opc args)))"
proof -
  let ?st = "snd (drm_mod_close_gpu0 dev dmod)"
  have p: "drm ?st = Some d"
    using assms by (simp add: drm_mod_close_gpu0_def gralloc_drm_destroy_def Let_def)
  have dead: "d \<notin> set (devices ?st)"
    using assms by (simp add: drm_mod_close_gpu0_def gralloc_drm_destroy_def Let_def)
  from p have live: "drm ?st \<noteq> None"
    by simp
  from p have i: "drm_init drv ?st = (0, ?st)"
    by (simp add: drm_init_live)
  from dead open_live_frame [OF live, of drv] register_live_frame [OF live, of drv hnd]
    perform_live_frame [OF live, of drv ops opc args] p i
  show ?thesis by simp
qed

theorem close_keeps_drm_pointer_witness:
  "drm ex_open = Some 1
   \<and> devices ex_open = [1]
   \<and> drm (snd (drm_mod_close_gpu0 5 ex_open)) = Some 1
   \<and> devices (snd (drm_mod_close_gpu0 5 ex_open)) = []
   \<and> drm_init ex_drv (snd (drm_mod_close_gpu0 5 ex_open)) = (0, snd (drm_mod_close_gpu0 5 ex_open))
   \<and> devices (snd (drm_mod_open_gpu0 ex_drv (snd (drm_mod_close_gpu0 5 ex_open)))) = []"
proof -
  have h: "drm ex_open = Some 1"
    by (simp add: ex_open_eq)
  have c: "devices (snd (drm_mod_close_gpu0 5 ex_open)) = []"
    by (simp add: ex_open_eq drm_mod_close_gpu0_def gralloc_drm_destroy_def Let_def)
  have l: "drm (snd (drm_mod_close_gpu0 5 ex_open)) \<noteq> None"
    by (simp add: ex_open_eq drm_mod_close_gpu0_def gralloc_drm_destroy_def Let_def)
  from close_keeps_drm_pointer [OF h, where dev = 5 and drv = ex_drv] h c
    open_live_frame [OF l, of ex_drv]
  show ?thesis
    by (simp add: ex_open_eq)
qed

subsection \<open>Allocation\<close>

lemma map_of_insort_key:
  "map_of m (fst p) = None \<Longrightarrow>
     map_of (insort_key fst p m) k = (if k = fst p then Some (snd p) else map_of m k)"
  by (induction m) (auto split: if_splits)

lemma records_find_insert:
  "records_find bo (records_insert (bo, slot) m)
     = (if records_find bo m = None then Some slot else records_find bo m)"
  by (simp add: records_find_def records_insert_def map_of_insort_key)

lemma length_records_insert:
  "length (records_insert (bo, slot) m)
     = (if records_find bo m = None then Suc (length m) else length m)"
  by (simp add: records_find_def records_insert_def)

lemma bo_create_Some:
  assumes "gralloc_drm_bo_create drv w h fmt usg st = (Some bo, st1)"
  shows "\<exists>hnd pitch.
           drv_alloc drv w h fmt usg = Some (bo, hnd, pitch)
           \<and> gralloc_drm_bo_get_handle st1 bo = Some (hnd, pitch)
           \<and> handles st1 hnd = Some \<lparr>width = w, height = h, format = fmt, usage = usg,
                                      stride = pitch, data = Some bo\<rparr>
           \<and> all_records st1 = all_records st"
  using assms
  by (auto simp: gralloc_drm_bo_create_def gralloc_drm_bo_get_handle_def split: option.splits)

lemma bo_create_None:
  assumes "gralloc_drm_bo_create drv w h fmt usg st = (None, st1)"
  shows "st1 = st"
  using assms by (auto simp: gralloc_drm_bo_create_def split: option.splits)

lemma records_insert_present:
  "records_find bo m \<noteq> None \<Longrightarrow> records_insert (bo, slot) m = m"
  by (auto simp: records_find_def records_insert_def)

text \<open>
  C4, as amended: \<open>drm_mod_create_buffer\<close> first replaces the implementation-defined format
  by RGBA 8888; then a zero from the format catalog ends the call with \<open>- EINVAL\<close>
  (BadFormat) and the module unchanged; then a null buffer object from the driver adapter
  ends it with \<open>- ENOMEM\<close> (OutOfMemory) and the module unchanged; otherwise the call
  succeeds, returns the object's handle and its pitch divided by the catalog's number,
  and offers the pair of the object and the caller's handle slot to the registry with
  \<^verbatim>\<open>std::map::insert\<close>.  When the object was not a key of the registry, the pair is
  inserted: the object is bound to the slot and the registry has one entry more.  When
  it was a key already, nothing is inserted and the registry is unchanged.
\<close>

theorem create_buffer_steps:
  "let fmt1 = (if fmt = HAL_PIXEL_FORMAT_IMPLEMENTATION_DEFINED
               then HAL_PIXEL_FORMAT_RGBA_8888 else fmt);
       bpp = gralloc_drm_get_bpp drv fmt1;
       r = drm_mod_create_buffer drv dmod w h fmt usg slot
   in if bpp = 0 then r = (Inl (- EINVAL), dmod)
      else (case gralloc_drm_bo_create drv w h fmt1 usg dmod of
              (None, st) \<Rightarrow> r = (Inl (- ENOMEM), dmod)
            | (Some bo, st) \<Rightarrow>
                (\<exists>hnd pitch.
                   gralloc_drm_bo_get_handle st bo = Some (hnd, pitch)
                   \<and> r = (Inr (hnd, c_div pitch bpp),
                          st\<lparr>all_records := records_insert (bo, slot) (all_records dmod)\<rparr>))
                \<and> (if records_find bo (all_records dmod) = None
                    then records_find bo (all_records (snd r)) = Some slot
                         \<and> length (all_records (snd r)) = Suc (length (all_records dmod))
                    else all_records (snd r) = all_records dmod))"
proof -
  define fmt1 where "fmt1 = (if fmt = HAL_PIXEL_FORMAT_IMPLEMENTATION_DEFINED
               then HAL_PIXEL_FORMAT_RGBA_8888 else fmt)"
  define bpp where "bpp = gralloc_drm_get_bpp drv fmt1"
  define r where "r = drm_mod_create_buffer drv dmod w h fmt usg slot"
  obtain b st where c: "gralloc_drm_bo_create drv w h fmt1 usg dmod = (b, st)"
    by (cases "gralloc_drm_bo_create drv w h fmt1 usg dmod")
  have r_unfold: "r = (if bpp = 0 then (Inl (- EINVAL), dmod)
         else (case b of
                 None \<Rightarrow> (Inl (- ENOMEM), st)
               | Some bo \<Rightarrow>
                   (case gralloc_drm_bo_get_handle st bo of
                      None \<Rightarrow> (Inl (- EINVAL), st)
                    | Some (hnd, pitch) \<Rightarrow>
                        (Inr (hnd, c_div pitch bpp),
                         st\<lparr>all_records := records_insert (bo, slot) (all_records st)\<rparr>))))"
    using c by (simp add: r_def drm_mod_create_buffer_def Let_def fmt1_def bpp_def split: option.splits)
  have goal: "if bpp = 0 then r = (Inl (- EINVAL), dmod)
      else (case (b, st) of
              (None, st) \<Rightarrow> r = (Inl (- ENOMEM), dmod)
            | (Some bo, st) \<Rightarrow>
                (\<exists>hnd pitch.
                   gralloc_drm_bo_get_handle st bo = Some (hnd, pitch)
                   \<and> r = (Inr (hnd, c_div pitch bpp),
                          st\<lparr>all_records := records_insert (bo, slot) (all_records dmod)\<rparr>))
                \<and> (if records_find bo (all_records dmod) = None
                    then records_find bo (all_records (snd r)) = Some slot
                         \<and> length (all_records (snd r)) = Suc (length (all_records dmod))
                    else all_records (snd r) = all_records dmod))"
  proof (cases "bpp = 0")
    case True
    then show ?thesis by (simp add: r_unfold)
  next
    case nz: False
    show ?thesis
    proof (cases b)
      case None
      with c have "st = dmod" by (simp add: bo_create_None)
      with nz None show ?thesis by (simp add: r_unfold)
    next
      case (Some bo)
      with c obtain hnd pitch where
        g: "gralloc_drm_bo_get_handle st bo = Some (hnd, pitch)"
        and a: "all_records st = all_records dmod"
        using bo_create_Some [of drv w h fmt1 usg dmod bo st] by auto
      from nz Some g a have r: "r = (Inr (hnd, c_div pitch bpp),
                          st\<lparr>all_records := records_insert (bo, slot) (all_records dmod)\<rparr>)"
        by (simp add: r_unfold)
      show ?thesis
      proof (cases "records_find bo (all_records dmod) = None")
        case True
        with nz Some g r show ?thesis
          by (simp add: records_find_insert length_records_insert)
      next
        case False
        with nz Some g r show ?thesis
          by (simp add: records_insert_present)
      qed
    qed
  qed
  then show ?thesis
    unfolding Let_def fmt1_def [symmetric] bpp_def [symmetric] r_def [symmetric] c .
qed







lemma ex_rgba_eq:
  "ex_rgba = ex_open\<lparr>all_records := [(10, 100)],
      bos := [10 \<mapsto> \<lparr>handle = 20, refcount = 1, locked = None\<rparr>],
      handles := [20 \<mapsto> \<lparr>width = 250, height = 256, format = HAL_PIXEL_FORMAT_RGBA_8888, usage = 0,
                          stride = 1024, data = Some 10\<rparr>]\<rparr>"
  by (simp add: ex_rgba_def drm_mod_alloc_gpu0_def drm_mod_create_buffer_def Let_def
      gralloc_drm_get_bpp_def gralloc_drm_bo_create_def gralloc_drm_bo_get_handle_def
      records_insert_def ex_drv_def ex_open_eq HAL_MODULE_INFO_SYM_def
      HAL_PIXEL_FORMAT_YV12_def HAL_PIXEL_FORMAT_IMPLEMENTATION_DEFINED_def
      HAL_PIXEL_FORMAT_RGBA_8888_def)


lemma ex_rgba_from_handle: "gralloc_drm_bo_from_handle ex_rgba 20 = Some 10"
  by (simp add: ex_rgba_eq gralloc_drm_bo_from_handle_def)

lemma ex_stale_eq: "ex_stale = gralloc_drm_bo_decref 10 ex_rgba"
  by (simp add: ex_stale_def drm_mod_unregister_buffer_def gralloc_drm_handle_unregister_def
      ex_rgba_from_handle)

text \<open>
  C4 with the pair inserted on every success does not hold.  On \<open>ex_stale\<close> (a buffer
  allocated and then unregistered: the object is released, its registry entry stays) the
  driver hands out the address \<open>10\<close> again; the call succeeds with handle \<open>20\<close> and
  stride 64, and the registry still maps the object to the old slot \<open>100\<close>: the pair
  with the new slot \<open>200\<close> is not in it.
\<close>

theorem create_buffer_steps_counterexample:
  "fst (drm_mod_unregister_buffer ex_rgba 20) = 0
   \<and> all_records ex_stale = [(10, 100)]
   \<and> gralloc_drm_get_bpp ex_drv HAL_PIXEL_FORMAT_RGBA_8888 = 4
   \<and> fst (gralloc_drm_bo_create ex_drv 64 64 HAL_PIXEL_FORMAT_RGBA_8888 0 ex_stale) = Some 10
   \<and> fst (drm_mod_create_buffer ex_drv ex_stale 64 64 HAL_PIXEL_FORMAT_RGBA_8888 0 200) = Inr (20, 64)
   \<and> all_records (snd (drm_mod_create_buffer ex_drv ex_stale 64 64 HAL_PIXEL_FORMAT_RGBA_8888 0 200))
       = [(10, 100)]
   \<and> (10, 200) \<notin> set (all_records
         (snd (drm_mod_create_buffer ex_drv ex_stale 64 64 HAL_PIXEL_FORMAT_RGBA_8888 0 200)))"
proof -
  have u: "fst (drm_mod_unregister_buffer ex_rgba 20) = 0"
    by (simp add: drm_mod_unregister_buffer_def gralloc_drm_handle_unregister_def
        ex_rgba_from_handle)
  show ?thesis
    by (simp add: u) (simp add: ex_stale_eq gralloc_drm_bo_decref_def ex_rgba_eq
        drm_mod_create_buffer_def Let_def
        gralloc_drm_get_bpp_def gralloc_drm_bo_create_def gralloc_drm_bo_get_handle_def
        records_insert_def ex_drv_def c_div_def
        HAL_PIXEL_FORMAT_IMPLEMENTATION_DEFINED_def HAL_PIXEL_FORMAT_RGBA_8888_def)
qed




subsection \<open>Destruction\<close>

text \<open>Insertion and erasure keep the keys of the registry distinct, as in a \<^verbatim>\<open>std::map\<close>.\<close>

lemma distinct_keys_insort:
  "fst p \<notin> fst ` set m \<Longrightarrow> distinct (map fst m) \<Longrightarrow> distinct (map fst (insort_key fst p m))"
  by (induction m) (auto simp: set_insort_key)

lemma records_insert_distinct:
  "distinct (map fst m) \<Longrightarrow> distinct (map fst (records_insert p m))"
  by (simp add: records_insert_def distinct_keys_insort map_of_eq_None_iff)

lemma records_erase_keys: "fst ` set (records_erase bo m) \<subseteq> fst ` set m"
  by (induction m) auto

lemma records_erase_distinct:
  "distinct (map fst m) \<Longrightarrow> distinct (map fst (records_erase bo m))"
  using records_erase_keys [of bo] by (induction m) auto

lemma map_of_records_erase:
  "distinct (map fst m) \<Longrightarrow> map_of (records_erase bo m) bo = None"
  by (induction m) (auto simp: map_of_eq_None_iff)

lemma length_records_erase:
  "map_of m bo \<noteq> None \<Longrightarrow> Suc (length (records_erase bo m)) = length m"
  by (induction m) (auto split: if_splits)

lemma from_handle_decref:
  assumes "gralloc_drm_bo_from_handle st hnd = Some bo"
      and "gralloc_drm_bo_from_handle (gralloc_drm_bo_decref bo st) hnd = Some bo1"
  shows "bo1 = bo"
  using assms
  by (auto simp: gralloc_drm_bo_from_handle_def gralloc_drm_bo_decref_def
      split: option.splits if_splits)

text \<open>
  What a second \<open>drm_mod_destroy_buffer\<close> does after a first one that succeeded, in a
  registry without duplicate keys (which a \<^verbatim>\<open>std::map\<close> is): it returns \<open>- EINVAL\<close> and
  leaves the registry, one entry shorter since the first call, as it is; but when the
  handle still resolves it has decremented the reference count once more before the
  registry lookup fails.
\<close>

lemma destroy_buffer_second_call:
  assumes d: "distinct (map fst (all_records dmod))"
      and f: "drm_mod_destroy_buffer dmod hnd = (0, st1)"
  shows "fst (drm_mod_destroy_buffer st1 hnd) = - EINVAL
       \<and> all_records (snd (drm_mod_destroy_buffer st1 hnd)) = all_records st1
       \<and> Suc (length (all_records st1)) = length (all_records dmod)
       \<and> snd (drm_mod_destroy_buffer st1 hnd)
           = (case gralloc_drm_bo_from_handle st1 hnd of
                None \<Rightarrow> st1
              | Some bo \<Rightarrow> gralloc_drm_bo_decref bo st1)"
proof -
  from f obtain bo where bo: "gralloc_drm_bo_from_handle dmod hnd = Some bo"
    by (cases "gralloc_drm_bo_from_handle dmod hnd")
       (auto simp: drm_mod_destroy_buffer_def EINVAL_def)
  let ?st = "gralloc_drm_bo_decref bo dmod"
  have ar: "all_records ?st = all_records dmod"
    by (simp add: gralloc_drm_bo_decref_def split: option.splits)
  from f bo ar have found: "map_of (all_records dmod) bo \<noteq> None"
    and st1: "st1 = ?st\<lparr>all_records := records_erase bo (all_records dmod)\<rparr>"
    by (auto simp: drm_mod_destroy_buffer_def Let_def records_find_def EINVAL_def
        split: option.splits)
  have len: "Suc (length (all_records st1)) = length (all_records dmod)"
    using found by (simp add: st1 length_records_erase)
  have gone: "records_find bo (all_records st1) = None"
    using d by (simp add: st1 records_find_def map_of_records_erase)
  have fh: "gralloc_drm_bo_from_handle st1 hnd = gralloc_drm_bo_from_handle ?st hnd"
    by (simp add: st1 gralloc_drm_bo_from_handle_def cong: option.case_cong)
  have are: "all_records (gralloc_drm_bo_decref b st1) = all_records st1" for b
    by (simp add: gralloc_drm_bo_decref_def split: option.splits)
  show ?thesis
  proof (cases "gralloc_drm_bo_from_handle st1 hnd")
    case None
    with len show ?thesis by (simp add: drm_mod_destroy_buffer_def)
  next
    case (Some bo1)
    with fh bo have "bo1 = bo"
      using from_handle_decref [of dmod hnd bo bo1] by simp
    with Some gone len are show ?thesis
      by (simp add: drm_mod_destroy_buffer_def Let_def)
  qed
qed

lemma ex_shared_eq:
  "ex_shared = ex_rgba\<lparr>bos := [10 \<mapsto> \<lparr>handle = 20, refcount = 2, locked = None\<rparr>]\<rparr>"
  by (simp add: ex_shared_def drm_mod_register_buffer_def drm_init_def
      gralloc_drm_handle_register_def gralloc_drm_bo_from_handle_def ex_rgba_eq ex_open_eq
      HAL_MODULE_INFO_SYM_def fun_eq_iff)

text \<open>
  C1: a second \<^verbatim>\<open>free\<close> of a handle must fail with BadHandle without decrementing the
  reference count a second time.  The source decrements before it consults the
  registry.  On the buffer of \<open>ex_shared\<close> (allocated, then registered: two references)
  the first call returns \<open>0\<close>, leaves one reference and empties the registry; the second
  returns \<open>- EINVAL\<close> and has nevertheless released the buffer object, whose remaining
  reference belongs to the registration.
\<close>

theorem destroy_buffer_twice:
  "map_option refcount (bos ex_shared 10) = Some 2
   \<and> length (all_records ex_shared) = 1
   \<and> fst (drm_mod_destroy_buffer ex_shared 20) = 0
   \<and> map_option refcount (bos (snd (drm_mod_destroy_buffer ex_shared 20)) 10) = Some 1
   \<and> length (all_records (snd (drm_mod_destroy_buffer ex_shared 20))) = 0
   \<and> fst (drm_mod_destroy_buffer (snd (drm_mod_destroy_buffer ex_shared 20)) 20) = - EINVAL
   \<and> bos (snd (drm_mod_destroy_buffer (snd (drm_mod_destroy_buffer ex_shared 20)) 20)) 10 = None
   \<and> length (all_records (snd (drm_mod_destroy_buffer (snd (drm_mod_destroy_buffer ex_shared 20)) 20))) = 0"
proof -
  have s0: "ex_shared = ex_open\<lparr>all_records := [(10, 100)],
      bos := [10 \<mapsto> \<lparr>handle = 20, refcount = 2, locked = None\<rparr>],
      handles := [20 \<mapsto> \<lparr>width = 250, height = 256, format = HAL_PIXEL_FORMAT_RGBA_8888, usage = 0,
                          stride = 1024, data = Some 10\<rparr>]\<rparr>"
    by (simp add: ex_shared_eq ex_rgba_eq)
  have d1: "drm_mod_destroy_buffer ex_shared 20 =
      (0, ex_open\<lparr>all_records := [],
      bos := [10 \<mapsto> \<lparr>handle = 20, refcount = 1, locked = None\<rparr>],
      handles := [20 \<mapsto> \<lparr>width = 250, height = 256, format = HAL_PIXEL_FORMAT_RGBA_8888, usage = 0,
                          stride = 1024, data = Some 10\<rparr>]\<rparr>)"
    by (simp add: s0 drm_mod_destroy_buffer_def gralloc_drm_bo_from_handle_def
        gralloc_drm_bo_decref_def records_find_def Let_def)
  show ?thesis
    by (simp add: d1) (simp add: s0 drm_mod_destroy_buffer_def gralloc_drm_bo_from_handle_def
        gralloc_drm_bo_decref_def records_find_def Let_def)
qed

subsection \<open>The planar lock\<close>

lemma from_handle_bo_handle:
  "gralloc_drm_bo_from_handle st hnd = Some bo \<Longrightarrow>
     bo_handle st bo = handles st hnd \<and> handles st hnd \<noteq> None"
  by (auto simp: gralloc_drm_bo_from_handle_def bo_handle_def split: option.splits if_splits)

lemma ex_yv12_eq:
  "ex_yv12 = ex_open\<lparr>all_records := [(10, 100)],
      bos := [10 \<mapsto> \<lparr>handle = 20, refcount = 1, locked = None\<rparr>],
      handles := [20 \<mapsto> \<lparr>width = 320, height = 240, format = HAL_PIXEL_FORMAT_YV12, usage = 0,
                          stride = 320, data = Some 10\<rparr>]\<rparr>"
  by (simp add: ex_yv12_def drm_mod_alloc_gpu0_def drm_mod_create_buffer_def Let_def
      gralloc_drm_get_bpp_def gralloc_drm_bo_create_def gralloc_drm_bo_get_handle_def
      records_insert_def ex_drv_def ex_open_eq HAL_MODULE_INFO_SYM_def
      HAL_PIXEL_FORMAT_YV12_def HAL_PIXEL_FORMAT_IMPLEMENTATION_DEFINED_def
      HAL_PIXEL_FORMAT_RGBA_8888_def)

lemma ex_yv12_from_handle: "gralloc_drm_bo_from_handle ex_yv12 20 = Some 10"
  by (simp add: ex_yv12_eq gralloc_drm_bo_from_handle_def)

lemma ex_yv12_bo_handle:
  "bo_handle ex_yv12 10 = Some \<lparr>width = 320, height = 240, format = HAL_PIXEL_FORMAT_YV12, usage = 0,
                          stride = 320, data = Some 10\<rparr>"
  by (simp add: ex_yv12_eq bo_handle_def)

lemma ex_rgba_bo_handle:
  "bo_handle ex_rgba 10 = Some \<lparr>width = 250, height = 256, format = HAL_PIXEL_FORMAT_RGBA_8888,
      usage = 0, stride = 1024, data = Some 10\<rparr>"
  by (simp add: ex_rgba_eq bo_handle_def)

text \<open>
  C2, as amended: a planar lock with usage \<open>0\<close> of a buffer whose format is accepted
  performs no mapping (the module and its buffer objects are unchanged) and succeeds;
  the Y pointer is null; the Cb and Cr pointers are the differences of plane offsets
  \<open>offsets[1] - offsets[2]\<close> and \<open>offsets[2] - offsets[0]\<close> (taken modulo \<open>2 ^ 32\<close>) added to
  the null base, so each is null exactly when its difference is zero; \<open>ystride\<close> and
  \<open>cstride\<close> are the driver's \<open>pitches[0]\<close> and \<open>pitches[1]\<close>, and the chroma step is 1.
\<close>

theorem lock_ycbcr_usage_zero:
  assumes "gralloc_drm_bo_from_handle dmod bhandle = Some bo"
      and "bo_handle dmod bo = Some gh"
      and "format gh = HAL_PIXEL_FORMAT_YV12 \<or> format gh = HAL_PIXEL_FORMAT_YCbCr_420_888"
  shows "drm_mod_lock_ycbcr drv dmod bhandle 0 x y w h yc_in =
           (case gralloc_drm_resolve_format drv bhandle of
              (pitches, offsets, hs) \<Rightarrow>
                (Inr \<lparr>ycbcr_y = 0,
                      ycbcr_cb = ucast (offsets 1 - offsets 2),
                      ycbcr_cr = ucast (offsets 2 - offsets 0),
                      ystride = unat (pitches 0),
                      cstride = unat (pitches 1),
                      chroma_step = 1\<rparr>, dmod))"
  using assms by (auto simp: drm_mod_lock_ycbcr_def split: prod.splits)

theorem lock_ycbcr_usage_zero_witness:
  "gralloc_drm_bo_from_handle ex_yv12 20 = Some 10
   \<and> map_option format (bo_handle ex_yv12 10) = Some HAL_PIXEL_FORMAT_YV12
   \<and> drm_mod_lock_ycbcr ex_drv ex_yv12 20 0 8 8 16 16 ex_ycbcr =
       (Inr \<lparr>ycbcr_y = 0, ycbcr_cb = ucast (76800 - 96000 :: uint32_t), ycbcr_cr = ucast (96000 :: uint32_t),
             ystride = 320, cstride = 160, chroma_step = 1\<rparr>, ex_yv12)"
proof -
  have f: "format \<lparr>width = 320, height = 240, format = HAL_PIXEL_FORMAT_YV12, usage = 0,
             stride = 320, data = Some 10\<rparr> = HAL_PIXEL_FORMAT_YV12
           \<or> format \<lparr>width = 320, height = 240, format = HAL_PIXEL_FORMAT_YV12, usage = 0,
             stride = 320, data = Some 10\<rparr> = HAL_PIXEL_FORMAT_YCbCr_420_888"
    by simp
  from lock_ycbcr_usage_zero [OF ex_yv12_from_handle ex_yv12_bo_handle f,
      where drv = ex_drv and x = 8 and y = 8 and w = 16 and h = 16 and yc_in = ex_ycbcr]
  show ?thesis
    by (simp add: ex_yv12_from_handle ex_yv12_bo_handle gralloc_drm_resolve_format_def ex_drv_def)
qed

text \<open>
  C2 with all three pointers null does not hold.  On the 320 by 240 YV12 buffer of
  \<open>ex_yv12\<close>, whose chroma planes start at the offsets 76800 and 96000, a planar lock with
  usage \<open>0\<close> returns a null Y pointer, but the Cb pointer is \<open>2 ^ 32 - 19200\<close> and the Cr
  pointer is 96000.
\<close>

theorem lock_ycbcr_usage_zero_counterexample:
  "gralloc_drm_bo_from_handle ex_yv12 20 = Some 10
   \<and> map_option format (bo_handle ex_yv12 10) = Some HAL_PIXEL_FORMAT_YV12
   \<and> drm_mod_lock_ycbcr ex_drv ex_yv12 20 0 0 0 320 240 ex_ycbcr =
       (Inr \<lparr>ycbcr_y = 0, ycbcr_cb = 4294948096, ycbcr_cr = 96000,
             ystride = 320, cstride = 160, chroma_step = 1\<rparr>, ex_yv12)
   \<and> (4294948096 :: ptr) \<noteq> 0
   \<and> (96000 :: ptr) \<noteq> 0"
  by (simp add: drm_mod_lock_ycbcr_def ex_yv12_from_handle ex_yv12_bo_handle
      gralloc_drm_resolve_format_def ex_drv_def HAL_PIXEL_FORMAT_YV12_def
      HAL_PIXEL_FORMAT_YCbCr_420_888_def)

text \<open>
  C6: when a planar lock with a usage other than \<open>0\<close> succeeds, its Y pointer is the base
  pointer that the generic lock returned, the Cb pointer is that base plus
  \<open>offsets[1] - offsets[2]\<close> and the Cr pointer is that base plus
  \<open>offsets[2] - offsets[0]\<close>, the differences being those of the \<^verbatim>\<open>uint32_t\<close> plane
  offsets the driver reports.
\<close>

theorem lock_ycbcr_chroma_pointers:
  assumes "drm_mod_lock_ycbcr drv dmod bhandle usg x y w h yc_in = (Inr yc, st)"
      and "usg \<noteq> 0"
      and "gralloc_drm_bo_from_handle dmod bhandle = Some bo"
  shows "gralloc_drm_bo_lock drv bo usg x y w h dmod = (Inr (ycbcr_y yc), st)
       \<and> ycbcr_cb yc = ycbcr_y yc + ucast (fst (snd (gralloc_drm_resolve_format drv bhandle)) 1
                                           - fst (snd (gralloc_drm_resolve_format drv bhandle)) 2)
       \<and> ycbcr_cr yc = ycbcr_y yc + ucast (fst (snd (gralloc_drm_resolve_format drv bhandle)) 2
                                           - fst (snd (gralloc_drm_resolve_format drv bhandle)) 0)"
proof -
  from assms(3) obtain gh where gh: "bo_handle dmod bo = Some gh"
    using from_handle_bo_handle by fastforce
  obtain r st1 where l: "gralloc_drm_bo_lock drv bo usg x y w h dmod = (r, st1)"
    by (cases "gralloc_drm_bo_lock drv bo usg x y w h dmod")
  obtain pitches offsets hs where rf: "gralloc_drm_resolve_format drv bhandle = (pitches, offsets, hs)"
    by (cases "gralloc_drm_resolve_format drv bhandle")
  show ?thesis
    using assms gh l rf
    by (auto simp: drm_mod_lock_ycbcr_def split: if_splits sum.splits)
qed

theorem lock_ycbcr_chroma_pointers_witness:
  "(3::int) \<noteq> 0
   \<and> gralloc_drm_bo_from_handle ex_yv12 20 = Some 10
   \<and> fst (drm_mod_lock_ycbcr ex_drv ex_yv12 20 3 0 0 320 240 ex_ycbcr) =
       Inr \<lparr>ycbcr_y = 4096, ycbcr_cb = 4294952192, ycbcr_cr = 100096,
            ystride = 320, cstride = 160, chroma_step = 1\<rparr>
   \<and> fst (gralloc_drm_bo_lock ex_drv 10 3 0 0 320 240 ex_yv12) = Inr 4096
   \<and> (4294952192 :: ptr) = 4096 + ucast (76800 - 96000 :: uint32_t)
   \<and> (100096 :: ptr) = 4096 + ucast (96000 - 0 :: uint32_t)"
proof -
  have e: "drm_mod_lock_ycbcr ex_drv ex_yv12 20 3 0 0 320 240 ex_ycbcr =
       (Inr \<lparr>ycbcr_y = 4096, ycbcr_cb = 4294952192, ycbcr_cr = 100096,
            ystride = 320, cstride = 160, chroma_step = 1\<rparr>,
        snd (gralloc_drm_bo_lock ex_drv 10 3 0 0 320 240 ex_yv12))"
    by (simp add: drm_mod_lock_ycbcr_def ex_yv12_from_handle ex_yv12_bo_handle
        gralloc_drm_bo_lock_def gralloc_drm_resolve_format_def ex_drv_def
        HAL_PIXEL_FORMAT_YV12_def HAL_PIXEL_FORMAT_YCbCr_420_888_def)
  have u: "(3::int) \<noteq> 0"
    by simp
  have l: "fst (gralloc_drm_bo_lock ex_drv 10 3 0 0 320 240 ex_yv12) = Inr 4096"
    by (simp add: gralloc_drm_bo_lock_def ex_drv_def)
  from lock_ycbcr_chroma_pointers [OF e u ex_yv12_from_handle] e l ex_yv12_from_handle
  show ?thesis
    by simp
qed

text \<open>
  C7: the planar lock accepts exactly the formats YV12 and YCbCr 420 888.  For a handle
  that resolves, any other format ends the call with \<open>- EINVAL\<close> (BadFormat) and the
  module unchanged.  For the two accepted formats the call fails only when the generic
  lock it performs for a usage other than \<open>0\<close> fails, with that lock's status; when it
  succeeds, the descriptor's \<open>ystride\<close> is \<open>pitches[0]\<close>, its \<open>cstride\<close> is \<open>pitches[1]\<close> and
  its chroma step is 1.
\<close>

theorem lock_ycbcr_formats:
  assumes "gralloc_drm_bo_from_handle dmod bhandle = Some bo"
      and "bo_handle dmod bo = Some gh"
  shows "if format gh = HAL_PIXEL_FORMAT_YV12 \<or> format gh = HAL_PIXEL_FORMAT_YCbCr_420_888
         then (case fst (drm_mod_lock_ycbcr drv dmod bhandle usg x y w h yc_in) of
                 Inr yc \<Rightarrow>
                   ystride yc = unat (fst (gralloc_drm_resolve_format drv bhandle) 0)
                   \<and> cstride yc = unat (fst (gralloc_drm_resolve_format drv bhandle) 1)
                   \<and> chroma_step yc = 1
               | Inl err \<Rightarrow>
                   usg \<noteq> 0 \<and> err \<noteq> 0
                   \<and> gralloc_drm_bo_lock drv bo usg x y w h dmod = (Inl err, dmod))
         else drm_mod_lock_ycbcr drv dmod bhandle usg x y w h yc_in = (Inl (- EINVAL), dmod)"
proof -
  obtain r st1 where l: "gralloc_drm_bo_lock drv bo usg x y w h dmod = (r, st1)"
    by (cases "gralloc_drm_bo_lock drv bo usg x y w h dmod")
  obtain pitches offsets hs where rf: "gralloc_drm_resolve_format drv bhandle = (pitches, offsets, hs)"
    by (cases "gralloc_drm_resolve_format drv bhandle")
  have e: "r = Inl err \<Longrightarrow> err \<noteq> 0 \<and> st1 = dmod" for err
    using l by (auto simp: gralloc_drm_bo_lock_def split: prod.splits if_splits)
  show ?thesis
    using assms l rf e
    by (auto simp: drm_mod_lock_ycbcr_def split: if_splits sum.splits)
qed

theorem lock_ycbcr_formats_witness:
  "gralloc_drm_bo_from_handle ex_yv12 20 = Some 10
   \<and> map_option format (bo_handle ex_yv12 10) = Some HAL_PIXEL_FORMAT_YV12
   \<and> fst (drm_mod_lock_ycbcr ex_drv ex_yv12 20 0 0 0 320 240 ex_ycbcr) =
       Inr \<lparr>ycbcr_y = 0, ycbcr_cb = 4294948096, ycbcr_cr = 96000,
            ystride = 320, cstride = 160, chroma_step = 1\<rparr>
   \<and> unat (fst (gralloc_drm_resolve_format ex_drv 20) 0) = 320
   \<and> unat (fst (gralloc_drm_resolve_format ex_drv 20) 1) = 160
   \<and> gralloc_drm_bo_from_handle ex_rgba 20 = Some 10
   \<and> map_option format (bo_handle ex_rgba 10) = Some HAL_PIXEL_FORMAT_RGBA_8888
   \<and> drm_mod_lock_ycbcr ex_drv ex_rgba 20 3 0 0 250 256 ex_ycbcr = (Inl (- EINVAL), ex_rgba)"
proof -
  have y: "fst (drm_mod_lock_ycbcr ex_drv ex_yv12 20 0 0 0 320 240 ex_ycbcr) =
       Inr \<lparr>ycbcr_y = 0, ycbcr_cb = 4294948096, ycbcr_cr = 96000,
            ystride = 320, cstride = 160, chroma_step = 1\<rparr>"
    by (simp add: drm_mod_lock_ycbcr_def ex_yv12_from_handle ex_yv12_bo_handle
        gralloc_drm_resolve_format_def ex_drv_def HAL_PIXEL_FORMAT_YV12_def
        HAL_PIXEL_FORMAT_YCbCr_420_888_def)
  have p: "unat (fst (gralloc_drm_resolve_format ex_drv 20) 0) = 320
           \<and> unat (fst (gralloc_drm_resolve_format ex_drv 20) 1) = 160"
    by (simp add: gralloc_drm_resolve_format_def ex_drv_def)
  from lock_ycbcr_formats [OF ex_yv12_from_handle ex_yv12_bo_handle,
      where drv = ex_drv and usg = 0 and x = 0 and y = 0 and w = 320 and h = 240 and yc_in = ex_ycbcr]
    lock_ycbcr_formats [OF ex_rgba_from_handle ex_rgba_bo_handle,
      where drv = ex_drv and usg = 3 and x = 0 and y = 0 and w = 250 and h = 256 and yc_in = ex_ycbcr]
    y p
  show ?thesis
    by (simp add: ex_yv12_from_handle ex_yv12_bo_handle ex_rgba_from_handle ex_rgba_bo_handle
        HAL_PIXEL_FORMAT_YV12_def HAL_PIXEL_FORMAT_YCbCr_420_888_def
        HAL_PIXEL_FORMAT_RGBA_8888_def)
qed

subsection \<open>The registry dump\<close>

lemma snprintf_returns: "snd (snprintf dst n s) = int (length s)"
  by (simp add: snprintf_def Let_def)

lemma snprintf_stores:
  assumes "p \<in> set (fst (snprintf dst n s))"
  shows "dst \<le> fst p \<and> fst p < dst + int n"
proof (cases "n = 0")
  case True
  with assms show ?thesis by (simp add: snprintf_def)
next
  case False
  let ?k = "min (length s) (n - 1)"
  from assms False have
    "p \<in> set (zip (map (\<lambda>i. dst + int i) [0..<?k]) (take ?k s)) \<or> p = (dst + int ?k, CHR 0x00)"
    by (auto simp: snprintf_def Let_def)
  then show ?thesis
  proof
    assume "p \<in> set (zip (map (\<lambda>i. dst + int i) [0..<?k]) (take ?k s))"
    then have "fst p \<in> set (map (\<lambda>i. dst + int i) [0..<?k])"
      by (metis in_set_zipE prod.collapse)
    with False show ?thesis by auto
  next
    assume "p = (dst + int ?k, CHR 0x00)"
    with False show ?thesis by auto
  qed
qed

lemma size_t_of_int_small: "0 \<le> i \<Longrightarrow> i < 2 ^ 64 \<Longrightarrow> int (size_t_of_int i) = i"
  by (simp add: size_t_of_int_def)

lemma dump_loop_in_bounds:
  assumes "0 \<le> used" and "used \<le> buff_len" and "buff_len < 2 ^ 64"
      and "dump_loop show_p st buff_len used m = Some ws"
      and "p \<in> set ws"
  shows "0 \<le> fst p \<and> fst p < buff_len"
  using assms
proof (induction m arbitrary: used ws)
  case Nil
  then show ?case by simp
next
  case (Cons it rest)
  from Cons.prems(4) obtain s where s: "dump_entry show_p st it = Some s"
    by (cases "dump_entry show_p st it") auto
  obtain ws0 n where sn: "snprintf used (size_t_of_int (buff_len - used)) s = (ws0, n)"
    by (cases "snprintf used (size_t_of_int (buff_len - used)) s")
  have n: "n = int (length s)"
    using snprintf_returns [of used "size_t_of_int (buff_len - used)" s] sn by simp
  have sz: "int (size_t_of_int (buff_len - used)) = buff_len - used"
    using Cons.prems(1,2,3) by (simp add: size_t_of_int_small)
  have in0: "0 \<le> fst q \<and> fst q < buff_len" if "q \<in> set ws0" for q
    using snprintf_stores [of q used "size_t_of_int (buff_len - used)" s] that sn sz Cons.prems(1)
    by simp
  show ?case
  proof (cases "used + n \<ge> buff_len")
    case True
    with Cons.prems(4) s sn have "ws = ws0" by simp
    with Cons.prems(5) in0 show ?thesis by simp
  next
    case False
    with Cons.prems(4) s sn obtain ws1 where
      r: "dump_loop show_p st buff_len (used + n) rest = Some ws1" and w: "ws = ws0 @ ws1"
      by (auto split: option.splits)
    from Cons.prems(5) w have "p \<in> set ws0 \<or> p \<in> set ws1" by simp
    then show ?thesis
    proof
      assume "p \<in> set ws0"
      then show ?thesis by (rule in0)
    next
      assume "p \<in> set ws1"
      moreover have "0 \<le> used + n" using Cons.prems(1) n by simp
      moreover have "used + n \<le> buff_len" using False by simp
      ultimately show ?thesis
        using Cons.IH [of "used + n" ws1] Cons.prems(3) r by simp
    qed
  qed
qed

lemma length_dump_header: "length dump_header = 30"
  by (simp add: dump_header_def)

text \<open>
  When the buffer holds the header line (30 bytes or more), every store of the dump is
  inside the buffer.
\<close>

lemma dump_in_bounds:
  assumes "30 \<le> buff_len" and "buff_len < 2 ^ 64"
      and "drm_mod_dump_gpu0 show_p st buff_len = Some ws"
      and "p \<in> set ws"
  shows "0 \<le> fst p \<and> fst p < buff_len"
proof -
  obtain ws0 n where sn: "snprintf 0 (size_t_of_int (buff_len - 0)) dump_header = (ws0, n)"
    by (cases "snprintf 0 (size_t_of_int (buff_len - 0)) dump_header")
  have n: "n = 30"
    using snprintf_returns [of 0 "size_t_of_int (buff_len - 0)" dump_header] sn
    by (simp add: length_dump_header)
  have sz: "int (size_t_of_int (buff_len - 0)) = buff_len"
    using assms(1,2) by (simp add: size_t_of_int_small)
  have in0: "0 \<le> fst q \<and> fst q < buff_len" if "q \<in> set ws0" for q
    using snprintf_stores [of q 0 "size_t_of_int (buff_len - 0)" dump_header] that sn sz
    by simp
  from assms(3) sn n obtain ws1 where
    r: "dump_loop show_p st buff_len 30 (all_records st) = Some ws1" and w: "ws = ws0 @ ws1"
    by (auto simp: drm_mod_dump_gpu0_def split: option.splits)
  from assms(4) w have "p \<in> set ws0 \<or> p \<in> set ws1" by simp
  then show ?thesis
  proof
    assume "p \<in> set ws0"
    then show ?thesis by (rule in0)
  next
    assume "p \<in> set ws1"
    then show ?thesis
      using dump_loop_in_bounds [of 30 buff_len show_p st "all_records st" ws1 p] assms(1,2) r
      by simp
  qed
qed

text \<open>
  When it does not (fewer than 30 bytes) and the registry has an entry, the dump stores
  past the buffer: at least the terminating zero of the first entry.
\<close>

lemma dump_stores_past_short_buffer:
  assumes "0 \<le> buff_len" and "buff_len < 30"
      and "all_records st = it # rest"
      and "dump_entry show_p st it = Some s"
  shows "\<exists>ws. drm_mod_dump_gpu0 show_p st buff_len = Some ws
              \<and> (\<exists>p \<in> set ws. buff_len \<le> fst p)"
proof -
  obtain ws0 n where h: "snprintf 0 (size_t_of_int (buff_len - 0)) dump_header = (ws0, n)"
    by (cases "snprintf 0 (size_t_of_int (buff_len - 0)) dump_header")
  have n: "n = 30"
    using snprintf_returns [of 0 "size_t_of_int (buff_len - 0)" dump_header] h
    by (simp add: length_dump_header)
  obtain ws1 m where e: "snprintf 30 (size_t_of_int (buff_len - 30)) s = (ws1, m)"
    by (cases "snprintf 30 (size_t_of_int (buff_len - 30)) s")
  have m: "m = int (length s)"
    using snprintf_returns [of 30 "size_t_of_int (buff_len - 30)" s] e by simp
  have "(buff_len - 30 + 2 ^ 64) mod 2 ^ 64 = buff_len - 30 + 2 ^ 64"
    using assms(1,2) by (intro mod_pos_pos_trivial) simp_all
  moreover have "(buff_len - 30 + 2 ^ 64) mod 2 ^ 64 = (buff_len - 30) mod 2 ^ 64"
    by (rule mod_add_self2)
  ultimately have "(buff_len - 30) mod 2 ^ 64 = buff_len - 30 + 2 ^ 64"
    by simp
  then have sz: "size_t_of_int (buff_len - 30) \<noteq> 0"
    using assms(1) by (simp add: size_t_of_int_def)
  let ?k = "min (length s) (size_t_of_int (buff_len - 30) - 1)"
  from e sz have last: "(30 + int ?k, CHR 0x00) \<in> set ws1"
    by (auto simp: snprintf_def Let_def)
  have r: "drm_mod_dump_gpu0 show_p st buff_len = Some (ws0 @ ws1)"
    using h n e m assms by (simp add: drm_mod_dump_gpu0_def)
  from last assms(2) have "\<exists>p \<in> set (ws0 @ ws1). buff_len \<le> fst p"
    by force
  with r show ?thesis by blast
qed

lemma ex_entry:
  "dump_entry ex_show_p ex_rgba (10, 100)
     = Some ''bo: 0xa, handle: 0x64, width: 250, height: 256, format: 1, usage: 0\<newline>''"
  by (simp add: dump_entry_def ex_rgba_bo_handle ex_show_p_def show_d_def show_x_def
      digit_char_def HAL_PIXEL_FORMAT_RGBA_8888_def)

text \<open>
  C3: the dump must never store past the buffer.  The source checks \<^verbatim>\<open>used >= buff_len\<close>
  after each entry but not after the header line, whose \<^verbatim>\<open>snprintf\<close> returns 30 whatever
  the buffer holds.  With a buffer of 10 bytes and one entry in the registry, the entry
  is formatted at offset 30 with the size \<open>10 - 30\<close> converted to \<^verbatim>\<open>size_t\<close>: the stores at
  offsets 10 and above are the whole entry and its terminating zero, at offsets 30 to 98.
\<close>

theorem dump_overflow:
  "all_records ex_rgba = [(10, 100)]
   \<and> map_option (filter (\<lambda>s. 10 \<le> fst s)) (drm_mod_dump_gpu0 ex_show_p ex_rgba 10)
       = Some (zip (map int [30..<99])
                 (''bo: 0xa, handle: 0x64, width: 250, height: 256, format: 1, usage: 0\<newline>''
                  @ [CHR 0x00]))"
proof -
  have r: "all_records ex_rgba = [(10, 100)]"
    by (simp add: ex_rgba_eq)
  have h: "snprintf 0 (size_t_of_int (10 - 0)) dump_header
             = ([(0, CHR ''d''), (1, CHR ''u''), (2, CHR ''m''), (3, CHR ''p''), (4, CHR '' ''),
                 (5, CHR ''a''), (6, CHR ''l''), (7, CHR ''l''), (8, CHR '' ''), (9, CHR 0x00)], 30)"
    by (simp add: snprintf_def size_t_of_int_def dump_header_def Let_def)
  have e: "snprintf 30 (size_t_of_int (- 20))
             ''bo: 0xa, handle: 0x64, width: 250, height: 256, format: 1, usage: 0\<newline>''
           = (zip (map int [30..<99])
                 (''bo: 0xa, handle: 0x64, width: 250, height: 256, format: 1, usage: 0\<newline>''
                  @ [CHR 0x00]), 68)"
    by (simp add: snprintf_def size_t_of_int_def Let_def)
  have "drm_mod_dump_gpu0 ex_show_p ex_rgba 10
          = Some ([(0, CHR ''d''), (1, CHR ''u''), (2, CHR ''m''), (3, CHR ''p''), (4, CHR '' ''),
                 (5, CHR ''a''), (6, CHR ''l''), (7, CHR ''l''), (8, CHR '' ''), (9, CHR 0x00)]
                  @ zip (map int [30..<99])
                 (''bo: 0xa, handle: 0x64, width: 250, height: 256, format: 1, usage: 0\<newline>''
                  @ [CHR 0x00]))"
    unfolding drm_mod_dump_gpu0_def h r by (simp add: ex_entry e)
  with r show ?thesis by simp
qed

end
